theory Spec2Isabelle
  imports Main "HOL-Library.AList"
begin

section \<open>JavaScript values\<close>

text \<open>
  The interfaces \<open>S3BucketPolicy\<close> and \<open>S3BucketPolicyStatement\<close> of
  \<open>src/functions/src/index.ts\<close> are erased when the program runs: the policy document
  is whatever \<open>JSON.parse\<close> returns, cast without a check. A document is therefore a
  JavaScript value, an object being the list of its own properties in property order,
  and the two interfaces are the predicates \<open>isS3BucketPolicyStatement\<close> and
  \<open>isS3BucketPolicy\<close> below. The program never looks inside a number, so the type of
  numbers is the parameter \<open>'n\<close>. Strings are lists of 8-bit characters; bucket names,
  account ids and the constants of the program are ASCII, where a character is one
  UTF-16 code unit.
\<close>

datatype 'n jsval =
    Undefined
  | Null
  | Bool bool
  | Num 'n
  | Str string
  | Arr "'n jsval list"
  | Obj "(string \<times> 'n jsval) list"

text \<open>
  What a \<open>throw\<close> or a rejected promise carries: the two native errors the program can
  meet, and the value an SDK call rejects with.
\<close>

datatype 'n thrown = TypeError | SyntaxError | Rejected "'n jsval"

text \<open>
  Property read \<open>v.k\<close>, for the keys the program reads (\<open>Statement\<close>, \<open>Sid\<close>,
  \<open>Code\<close>), none of which is a built-in property of a boolean, number, string or array:
  reading from \<open>undefined\<close> or \<open>null\<close> throws, a missing property is \<open>undefined\<close>.
\<close>

fun getProp :: "'n jsval \<Rightarrow> string \<Rightarrow> 'n thrown + 'n jsval" where
  "getProp Undefined k = Inl TypeError"
| "getProp Null k = Inl TypeError"
| "getProp (Obj fs) k = Inr (case map_of fs k of None \<Rightarrow> Undefined | Some v \<Rightarrow> v)"
| "getProp v k = Inr Undefined"

text \<open>\<open>v === c\<close> for a string literal \<open>c\<close>: only a string with the same characters.\<close>

fun strictEqStr :: "'n jsval \<Rightarrow> string \<Rightarrow> bool" where
  "strictEqStr (Str s) c = (s = c)"
| "strictEqStr v c = False"

text \<open>\<open>Array.prototype.filter\<close> with a callback that may throw.\<close>

fun filterE :: "('a \<Rightarrow> 'e + bool) \<Rightarrow> 'a list \<Rightarrow> 'e + 'a list" where
  "filterE f [] = Inr []"
| "filterE f (x # xs) =
     (case f x of
        Inl e \<Rightarrow> Inl e
      | Inr keep \<Rightarrow>
          (case filterE f xs of
             Inl e \<Rightarrow> Inl e
           | Inr ys \<Rightarrow> Inr (if keep then x # ys else ys)))"

text \<open>
  The method call \<open>v.filter(f)\<close>: on \<open>undefined\<close> and \<open>null\<close> the property read
  throws, on any other value that is not an array \<open>filter\<close> is not a function.
\<close>

fun callFilter :: "'n jsval \<Rightarrow> ('n jsval \<Rightarrow> 'n thrown + bool) \<Rightarrow> 'n thrown + 'n jsval list" where
  "callFilter (Arr xs) f = filterE f xs"
| "callFilter v f = Inl TypeError"

text \<open>Decimal numerals, the keys of the index properties of arrays and strings.\<close>

function decimal :: "nat \<Rightarrow> string" where
  "decimal n =
     (if n < 10 then [char_of (48 + n)]
      else decimal (n div 10) @ [char_of (48 + n mod 10)])"
  by pat_completeness auto
termination
  by (relation "measure id") auto

text \<open>The own enumerable properties that an object spread \<open>{...v}\<close> copies, in order.\<close>

fun ownProperties :: "'n jsval \<Rightarrow> (string \<times> 'n jsval) list" where
  "ownProperties (Obj fs) = fs"
| "ownProperties (Arr xs) = zip (map decimal [0..<length xs]) xs"
| "ownProperties (Str s) = zip (map decimal [0..<length s]) (map (\<lambda>c. Str [c]) s)"
| "ownProperties v = []"

section \<open>The policy interfaces\<close>

definition isStr :: "'n jsval \<Rightarrow> bool" where
  "isStr v = (case v of Str s \<Rightarrow> True | _ \<Rightarrow> False)"

definition isObj :: "'n jsval \<Rightarrow> bool" where
  "isObj v = (case v of Obj fs \<Rightarrow> True | _ \<Rightarrow> False)"

definition isStringOrStrings :: "'n jsval \<Rightarrow> bool" where
  "isStringOrStrings v = (case v of Str s \<Rightarrow> True | Arr xs \<Rightarrow> list_all isStr xs | _ \<Rightarrow> False)"

text \<open>A field \<open>k: T\<close> and a field \<open>k?: T\<close> of an interface.\<close>

definition requiredField :: "(string \<times> 'n jsval) list \<Rightarrow> string \<Rightarrow> ('n jsval \<Rightarrow> bool) \<Rightarrow> bool" where
  "requiredField fs k T = (case map_of fs k of None \<Rightarrow> False | Some v \<Rightarrow> T v)"

definition optionalField :: "(string \<times> 'n jsval) list \<Rightarrow> string \<Rightarrow> ('n jsval \<Rightarrow> bool) \<Rightarrow> bool" where
  "optionalField fs k T = (case map_of fs k of None \<Rightarrow> True | Some v \<Rightarrow> v = Undefined \<or> T v)"

fun isPrincipal :: "'n jsval \<Rightarrow> bool" where
  "isPrincipal (Obj fs) =
     (optionalField fs ''Service'' isStr \<and> optionalField fs ''AWS'' isStringOrStrings)"
| "isPrincipal v = False"

fun isS3BucketPolicyStatement :: "'n jsval \<Rightarrow> bool" where
  "isS3BucketPolicyStatement (Obj fs) =
     (optionalField fs ''Sid'' isStr \<and>
      requiredField fs ''Effect'' (\<lambda>v. v = Str ''Allow'' \<or> v = Str ''Deny'') \<and>
      requiredField fs ''Principal'' isPrincipal \<and>
      requiredField fs ''Action'' isStringOrStrings \<and>
      requiredField fs ''Resource'' isStringOrStrings \<and>
      optionalField fs ''Condition'' isObj)"
| "isS3BucketPolicyStatement v = False"

definition isStatements :: "'n jsval \<Rightarrow> bool" where
  "isStatements v = (case v of Arr ss \<Rightarrow> list_all isS3BucketPolicyStatement ss | _ \<Rightarrow> False)"

fun isS3BucketPolicy :: "'n jsval \<Rightarrow> bool" where
  "isS3BucketPolicy (Obj fs) =
     (requiredField fs ''Version'' isStr \<and>
      optionalField fs ''Id'' isStr \<and>
      requiredField fs ''Statement'' isStatements)"
| "isS3BucketPolicy v = False"

section \<open>The policy merge\<close>

definition POLICY_SID :: string where
  "POLICY_SID = ''DeploymentAccess''"

text \<open>The constant \<open>updatedStatement\<close> of \<open>updateBucketPolicy\<close>, its keys in source order.\<close>

definition updatedStatement :: "string \<Rightarrow> string list \<Rightarrow> 'n jsval" where
  "updatedStatement bucket accountIds =
     Obj [
       (''Sid'', Str POLICY_SID),
       (''Effect'', Str ''Allow''),
       (''Principal'',
          Obj [(''AWS'',
            Arr (map (\<lambda>accountId. Str (''arn:aws:iam::'' @ accountId @ '':root'')) accountIds))]),
       (''Action'',
          Arr [
            Str ''s3:GetObject'',
            Str ''s3:GetObjectTagging'',
            Str ''s3:GetObjectAttributes'',
            Str ''s3:GetObjectVersion'',
            Str ''s3:GetObjectVersionTagging'',
            Str ''s3:GetObjectVersionAttributes'',
            Str ''s3:GetObjectVersionAcl'',
            Str ''s3:GetObjectAcl'']),
       (''Resource'', Str (''arn:aws:s3:::'' @ bucket @ ''/*''))]"

text \<open>The callback \<open>(statement) => statement.Sid !== POLICY_SID\<close>.\<close>

definition sidDiffers :: "'n jsval \<Rightarrow> 'n thrown + bool" where
  "sidDiffers statement =
     (case getProp statement ''Sid'' of
        Inl e \<Rightarrow> Inl e
      | Inr sid \<Rightarrow> Inr (\<not> strictEqStr sid POLICY_SID))"

text \<open>
  \<open>updateBucketPolicy\<close>. The result \<open>{...currentPolicy, Statement: statements}\<close> has
  the own properties of \<open>currentPolicy\<close> in their order, the value of \<open>Statement\<close>
  replaced where the key stands, or the key added at the end when it is new.
\<close>

definition updateBucketPolicy :: "string \<Rightarrow> 'n jsval \<Rightarrow> string list \<Rightarrow> 'n thrown + 'n jsval" where
  "updateBucketPolicy bucket currentPolicy accountIds =
     (case getProp currentPolicy ''Statement'' of
        Inl e \<Rightarrow> Inl e
      | Inr stmts \<Rightarrow>
          (case callFilter stmts sidDiffers of
             Inl e \<Rightarrow> Inl e
           | Inr otherStatements \<Rightarrow>
               (let statements = otherStatements @ [updatedStatement bucket accountIds]
                in Inr (Obj (AList.update ''Statement'' (Arr statements)
                               (ownProperties currentPolicy))))))"

text \<open>
  The words of the specification: a statement is the managed one when its \<open>Sid\<close> is the
  managed Sid, and foreign otherwise (also when it has no \<open>Sid\<close>); a principal decodes
  back to the account id inside the template \<open>arn:aws:iam::<id>:root\<close>.
\<close>

definition hasManagedSid :: "'n jsval \<Rightarrow> bool" where
  "hasManagedSid s = (getProp s ''Sid'' = Inr (Str ''DeploymentAccess''))"

definition accountOfPrincipal :: "'n jsval \<Rightarrow> string option" where
  "accountOfPrincipal v =
     (case v of
        Str s \<Rightarrow>
          (if 18 \<le> length s \<and> take 13 s = ''arn:aws:iam::'' \<and> drop (length s - 5) s = '':root''
           then Some (take (length s - 18) (drop 13 s)) else None)
      | _ \<Rightarrow> None)"

section \<open>The registry and the account ids\<close>

record Account =
  ID :: string
  Name :: string
  Enabled :: bool
  RoleName :: string
  Environment :: "string list"
  AdminOnly :: "bool option"
  ExternalID :: "string option"

record Customer =
  ID :: string
  Name :: string
  Created :: string
  Active :: bool
  Accounts :: "Account list"
  Logo :: "string option"

text \<open>
  \<open>new Set(xs)\<close> keeps the first occurrence of every value, in insertion order, and
  \<open>Array.from\<close> lists the set in that order.
\<close>

definition setAdd :: "'a list \<Rightarrow> 'a \<Rightarrow> 'a list" where
  "setAdd s x = (if x \<in> set s then s else s @ [x])"

definition newSet :: "'a list \<Rightarrow> 'a list" where
  "newSet xs = foldl setAdd [] xs"

section \<open>The services and the calls a run makes\<close>

text \<open>
  The world outside the program is a state \<open>'w\<close>; every SDK call reads and changes it
  and either resolves or rejects. \<open>JSON.parse\<close> returns a value or throws a
  \<open>SyntaxError\<close>. A regional client is the region it was built with; a bucket of the
  \<open>ListBuckets\<close> response is its optional \<open>Name\<close>.
\<close>

record ('w, 'n) services =
  JSON_parse :: "string \<Rightarrow> 'n jsval option"
  JSON_stringify :: "'n jsval \<Rightarrow> string"
  scan :: "string \<Rightarrow> 'w \<Rightarrow> ('n thrown + Customer list option) \<times> 'w"
  listBuckets :: "'w \<Rightarrow> ('n thrown + string option list option) \<times> 'w"
  getBucketPolicy :: "string \<Rightarrow> string \<Rightarrow> 'w \<Rightarrow> ('n thrown + string option) \<times> 'w"
  putBucketPolicy :: "string \<Rightarrow> string \<Rightarrow> string \<Rightarrow> 'w \<Rightarrow> ('n thrown + unit) \<times> 'w"

text \<open>The calls of a run, in the order they are issued.\<close>

datatype 'n event =
    ScanCommand string
  | ListBucketsCommand
  | GetBucketPolicyCommand string string
  | PutBucketPolicyCommand string string string
  | ConsoleLog string
  | ConsoleError "'n thrown"

record ('w, 'n) state =
  world :: 'w
  trace :: "'n event list"

definition send :: "'n event \<Rightarrow> ('w \<Rightarrow> 'r \<times> 'w) \<Rightarrow> ('w, 'n) state \<Rightarrow> 'r \<times> ('w, 'n) state" where
  "send ev call s =
     (let (r, w) = call (world s) in (r, \<lparr>world = w, trace = trace s @ [ev]\<rparr>))"

definition console :: "'n event \<Rightarrow> ('w, 'n) state \<Rightarrow> ('w, 'n) state" where
  "console ev s = s\<lparr>trace := trace s @ [ev]\<rparr>"

definition DYNAMODB_TABLE_NAME :: string where
  "DYNAMODB_TABLE_NAME = ''table-name''"

definition getAccountIdsFromDynamoDB ::
  "('w, 'n) services \<Rightarrow> ('w, 'n) state \<Rightarrow> ('n thrown + string list) \<times> ('w, 'n) state" where
  "getAccountIdsFromDynamoDB sv s =
     (let (r, s1) = send (ScanCommand DYNAMODB_TABLE_NAME) (scan sv DYNAMODB_TABLE_NAME) s
      in case r of
           Inl e \<Rightarrow> (Inl e, s1)
         | Inr Items \<Rightarrow>
             (let records = (case Items of None \<Rightarrow> [] | Some items \<Rightarrow> items);
                  accountIds =
                    newSet (concat (map (\<lambda>item. map Account.ID (Accounts item)) records))
              in (Inr accountIds, s1)))"

text \<open>The test of the \<open>catch\<close> clause of \<open>getCurrentBucketPolicy\<close>, conjunct by conjunct.\<close>

fun typeofObject :: "'n jsval \<Rightarrow> bool" where
  "typeofObject Null = True"
| "typeofObject (Arr xs) = True"
| "typeofObject (Obj fs) = True"
| "typeofObject v = False"

text \<open>\<open>k in v\<close>, for a key that is no index and no built-in property.\<close>

fun hasProp :: "string \<Rightarrow> 'n jsval \<Rightarrow> bool" where
  "hasProp k (Obj fs) = (map_of fs k \<noteq> None)"
| "hasProp k v = False"

fun isNoSuchBucketPolicy :: "'n thrown \<Rightarrow> bool" where
  "isNoSuchBucketPolicy (Rejected error) =
     (typeofObject error \<and> error \<noteq> Null \<and> hasProp ''Code'' error \<and>
      (case getProp error ''Code'' of
         Inl e \<Rightarrow> False
       | Inr code \<Rightarrow> strictEqStr code ''NoSuchBucketPolicy''))"
| "isNoSuchBucketPolicy TypeError = False"
| "isNoSuchBucketPolicy SyntaxError = False"

text \<open>\<open>Policy || "{}"\<close>: an absent and an empty string are both falsy.\<close>

definition policyOrEmpty :: "string option \<Rightarrow> string" where
  "policyOrEmpty Policy = (case Policy of None \<Rightarrow> ''{}'' | Some p \<Rightarrow> if p = [] then ''{}'' else p)"

definition getCurrentBucketPolicy ::
  "('w, 'n) services \<Rightarrow> string \<Rightarrow> string \<Rightarrow> ('w, 'n) state \<Rightarrow> ('n thrown + 'n jsval) \<times> ('w, 'n) state" where
  "getCurrentBucketPolicy sv client bucket s =
     (let (r, s1) = send (GetBucketPolicyCommand client bucket) (getBucketPolicy sv client bucket) s;
          tried =
            (case r of
               Inl e \<Rightarrow> Inl e
             | Inr Policy \<Rightarrow>
                 (case JSON_parse sv (policyOrEmpty Policy) of
                    None \<Rightarrow> Inl SyntaxError
                  | Some currentPolicy \<Rightarrow> Inr currentPolicy))
      in case tried of
           Inr currentPolicy \<Rightarrow> (Inr currentPolicy, s1)
         | Inl error \<Rightarrow>
             (if isNoSuchBucketPolicy error
              then (Inr (Obj [(''Statement'', Arr []), (''Version'', Str ''2012-10-17'')]), s1)
              else (Inl error, s1)))"

section \<open>Bucket discovery and the driver\<close>

definition startsWith :: "string \<Rightarrow> string \<Rightarrow> bool" where
  "startsWith s p = (take (length p) s = p)"

text \<open>\<open>s.slice(n)\<close> for a start \<open>n\<close> that is not negative.\<close>

definition slice :: "nat \<Rightarrow> string \<Rightarrow> string" where
  "slice n s = drop n s"

definition listLambdaBundleBuckets ::
  "('w, 'n) services \<Rightarrow> ('w, 'n) state \<Rightarrow> ('n thrown + string list) \<times> ('w, 'n) state" where
  "listLambdaBundleBuckets sv s =
     (let (r, s1) = send ListBucketsCommand (listBuckets sv) s
      in case r of
           Inl e \<Rightarrow> (Inl e, s1)
         | Inr Buckets \<Rightarrow>
             (let buckets = (case Buckets of None \<Rightarrow> [] | Some bs \<Rightarrow> bs)
              in (Inr (filter (\<lambda>bucket. startsWith bucket ''some-prefix-lambdabundles-'')
                         (map (\<lambda>bucket. case bucket of None \<Rightarrow> [] | Some name \<Rightarrow> name) buckets)),
                  s1)))"

text \<open>The \<open>for\<close> loop of \<open>handler\<close>: the first throw ends it.\<close>

fun forBuckets ::
  "('w, 'n) services \<Rightarrow> string list \<Rightarrow> string list \<Rightarrow> ('w, 'n) state \<Rightarrow> ('n thrown + unit) \<times> ('w, 'n) state" where
  "forBuckets sv accountIds [] s = (Inr (), s)"
| "forBuckets sv accountIds (bucket # rest) s =
     (let region = slice 25 bucket;
          client = region;
          (r, s1) = getCurrentBucketPolicy sv client bucket s
      in case r of
           Inl e \<Rightarrow> (Inl e, s1)
         | Inr currentPolicy \<Rightarrow>
             (case updateBucketPolicy bucket currentPolicy accountIds of
                Inl e \<Rightarrow> (Inl e, s1)
              | Inr updatedPolicy \<Rightarrow>
                  (let policy = JSON_stringify sv updatedPolicy;
                       (r2, s2) = send (PutBucketPolicyCommand client bucket policy)
                                    (putBucketPolicy sv client bucket policy) s1
                   in case r2 of
                        Inl e \<Rightarrow> (Inl e, s2)
                      | Inr u \<Rightarrow> forBuckets sv accountIds rest s2)))"

definition handlerBody ::
  "('w, 'n) services \<Rightarrow> ('w, 'n) state \<Rightarrow> ('n thrown + unit) \<times> ('w, 'n) state" where
  "handlerBody sv s =
     (let (r, s1) = getAccountIdsFromDynamoDB sv s
      in case r of
           Inl e \<Rightarrow> (Inl e, s1)
         | Inr accountIds \<Rightarrow>
             (let (r2, s2) = listLambdaBundleBuckets sv s1
              in case r2 of
                   Inl e \<Rightarrow> (Inl e, s2)
                 | Inr buckets \<Rightarrow>
                     (let (r3, s3) = forBuckets sv accountIds buckets s2
                      in case r3 of
                           Inl e \<Rightarrow> (Inl e, s3)
                         | Inr u \<Rightarrow>
                             (Inr (), console (ConsoleLog ''S3 bucket policy updated successfully!'') s3))))"

text \<open>\<open>handler\<close>: the \<open>try\<close> block, and the \<open>catch\<close> that logs and throws again.\<close>

definition handler ::
  "('w, 'n) services \<Rightarrow> ('w, 'n) state \<Rightarrow> ('n thrown + unit) \<times> ('w, 'n) state" where
  "handler sv s =
     (let (r, s1) = handlerBody sv s
      in case r of
           Inl error \<Rightarrow> (Inl error, console (ConsoleError error) s1)
         | Inr u \<Rightarrow> (Inr (), s1))"

text \<open>The calls that reach the registry, and the calls that write a policy.\<close>

fun isScan :: "'n event \<Rightarrow> bool" where
  "isScan (ScanCommand t) = True"
| "isScan ev = False"

fun isPut :: "'n event \<Rightarrow> bool" where
  "isPut (PutBucketPolicyCommand c b p) = True"
| "isPut ev = False"

section \<open>Example inputs\<close>

definition exampleBucket :: string where
  "exampleBucket = ''some-prefix-lambdabundles-eu-west-2''"

definition otherStatement :: "unit jsval" where
  "otherStatement =
     Obj [
       (''Sid'', Str ''Other''),
       (''Effect'', Str ''Deny''),
       (''Principal'', Obj [(''AWS'', Str ''*'')]),
       (''Action'', Str ''s3:DeleteObject''),
       (''Resource'', Str ''arn:aws:s3:::some-prefix-lambdabundles-eu-west-2/*'')]"

definition noSidStatement :: "unit jsval" where
  "noSidStatement =
     Obj [
       (''Effect'', Str ''Allow''),
       (''Principal'', Obj [(''Service'', Str ''cloudtrail.amazonaws.com'')]),
       (''Action'', Arr [Str ''s3:PutObject'']),
       (''Resource'', Arr [Str ''arn:aws:s3:::some-prefix-lambdabundles-eu-west-2/logs/*'']),
       (''Condition'', Obj [(''Bool'', Obj [(''aws:SecureTransport'', Str ''true'')])])]"

definition exampleAccounts :: "string list" where
  "exampleAccounts = [''111111111111'', ''222222222222'']"

definition examplePolicy :: "unit jsval" where
  "examplePolicy =
     Obj [
       (''Version'', Str ''2012-10-17''),
       (''Id'', Str ''BundlePolicy''),
       (''Statement'',
          Arr [
            updatedStatement exampleBucket [''333333333333''],
            otherStatement,
            updatedStatement exampleBucket [],
            noSidStatement]),
       (''Comment'', Num ())]"

definition exampleAccount :: "string \<Rightarrow> Account" where
  "exampleAccount accountId =
     \<lparr>Account.ID = accountId, Name = ''deployment'', Enabled = True, RoleName = ''deployer'',
      Environment = [''prod''], AdminOnly = None, ExternalID = None\<rparr>"

definition exampleCustomers :: "Customer list" where
  "exampleCustomers =
     [\<lparr>Customer.ID = ''c-1'', Name = ''First'', Created = ''2024-01-01'', Active = True,
       Accounts = [exampleAccount ''111111111111''], Logo = None\<rparr>,
      \<lparr>Customer.ID = ''c-2'', Name = ''Second'', Created = ''2024-02-01'', Active = True,
       Accounts = [exampleAccount ''222222222222'', exampleAccount ''111111111111''],
       Logo = None\<rparr>]"

definition noSuchBucketPolicy :: "unit thrown" where
  "noSuchBucketPolicy =
     Rejected (Obj [(''name'', Str ''NoSuchBucketPolicy''), (''Code'', Str ''NoSuchBucketPolicy'')])"

definition accessDenied :: "unit thrown" where
  "accessDenied = Rejected (Obj [(''name'', Str ''AccessDenied''), (''Code'', Str ''AccessDenied'')])"

text \<open>
  Services for the examples: the outcomes of the scan and of every get-policy call are
  given, the world is the list of the policies written so far, and \<open>JSON.parse\<close> is
  given on the text \<open>{}\<close> only.
\<close>

definition exampleServices ::
  "(unit thrown + Customer list option) \<Rightarrow> (unit thrown + string option) \<Rightarrow>
   ((string \<times> string) list, unit) services" where
  "exampleServices scanned got =
     \<lparr>JSON_parse = (\<lambda>text. if text = ''{}'' then Some (Obj []) else None),
      JSON_stringify = (\<lambda>v. ''<policy>''),
      scan = (\<lambda>table w. (scanned, w)),
      listBuckets =
        (\<lambda>w. (Inr (Some [Some ''some-prefix-lambdabundles-eu-west-2'', Some ''unrelated'', None]), w)),
      getBucketPolicy = (\<lambda>client bucket w. (got, w)),
      putBucketPolicy = (\<lambda>client bucket policy w. (Inr (), w @ [(bucket, policy)]))\<rparr>"

definition start :: "((string \<times> string) list, unit) state" where
  "start = \<lparr>world = [], trace = []\<rparr>"



section \<open>Properties of the merge\<close>

lemma filterE_total:
  "(\<And>x. x \<in> set xs \<Longrightarrow> f x = Inr (P x)) \<Longrightarrow> filterE f xs = Inr (filter P xs)"
  by (induction xs) simp_all

lemma sidDiffers_Obj: "sidDiffers (Obj fs) = Inr (\<not> hasManagedSid (Obj fs))"
proof (cases "map_of fs ''Sid''")
  case None
  then show ?thesis by (simp add: sidDiffers_def hasManagedSid_def POLICY_SID_def)
next
  case (Some v)
  then show ?thesis
    by (cases v) (simp_all add: sidDiffers_def hasManagedSid_def POLICY_SID_def)
qed

lemma statement_is_Obj: "isS3BucketPolicyStatement s \<Longrightarrow> \<exists>fs. s = Obj fs"
  by (cases s) simp_all

lemma sidDiffers_statement:
  "isS3BucketPolicyStatement s \<Longrightarrow> sidDiffers s = Inr (\<not> hasManagedSid s)"
  using statement_is_Obj sidDiffers_Obj by blast

lemma policy_shape:
  assumes "isS3BucketPolicy p"
  obtains fs ss where "p = Obj fs" and "map_of fs ''Statement'' = Some (Arr ss)"
    and "list_all isS3BucketPolicyStatement ss"
proof -
  from assms obtain fs where p: "p = Obj fs" by (cases p) simp_all
  with assms have "requiredField fs ''Statement'' isStatements" by simp
  then obtain v where v: "map_of fs ''Statement'' = Some v" and "isStatements v"
    by (auto simp: requiredField_def split: option.splits)
  then obtain ss where "v = Arr ss" and "list_all isS3BucketPolicyStatement ss"
    by (cases v) (simp_all add: isStatements_def)
  with p v that show thesis by blast
qed

lemma updateBucketPolicy_Obj:
  assumes "map_of fs ''Statement'' = Some (Arr ss)"
    and "list_all isS3BucketPolicyStatement ss"
  shows "updateBucketPolicy b (Obj fs) a =
           Inr (Obj (AList.update ''Statement''
                  (Arr (filter (\<lambda>s. \<not> hasManagedSid s) ss @ [updatedStatement b a])) fs))"
proof -
  have "filterE sidDiffers ss = Inr (filter (\<lambda>s. \<not> hasManagedSid s) ss)"
    using assms(2) by (intro filterE_total) (simp add: list_all_iff sidDiffers_statement)
  with assms(1) show ?thesis by (simp add: updateBucketPolicy_def)
qed

lemma updatedStatement_managed: "hasManagedSid (updatedStatement b a)"
  by (simp add: hasManagedSid_def updatedStatement_def POLICY_SID_def)

lemma updatedStatement_typed: "isS3BucketPolicyStatement (updatedStatement b a)"
  by (simp add: updatedStatement_def requiredField_def optionalField_def isStr_def
      isStringOrStrings_def list_all_iff POLICY_SID_def)

lemma examplePolicy_typed: "isS3BucketPolicy examplePolicy"
  by (simp add: examplePolicy_def otherStatement_def noSidStatement_def updatedStatement_def
      requiredField_def optionalField_def isStr_def isObj_def isStringOrStrings_def
      isStatements_def POLICY_SID_def)

lemma updateBucketPolicy_typed:
  assumes "isS3BucketPolicy p"
  obtains fs ss where "p = Obj fs" and "map_of fs ''Statement'' = Some (Arr ss)"
    and "list_all isS3BucketPolicyStatement ss"
    and "updateBucketPolicy b p a =
           Inr (Obj (AList.update ''Statement''
                  (Arr (filter (\<lambda>s. \<not> hasManagedSid s) ss @ [updatedStatement b a])) fs))"
  using assms updateBucketPolicy_Obj by (elim policy_shape) blast

text \<open>
  C1: for a policy document \<open>current\<close>, any account ids and any bucket name, the
  merge succeeds and the \<open>Statement\<close> list of its result is the statements of
  \<open>current\<close> whose \<open>Sid\<close> is not the managed Sid (a statement without \<open>Sid\<close>
  is one of them), unchanged and in their order, followed by the new managed statement.
\<close>

theorem foreign_statements_preserved:
  assumes "isS3BucketPolicy current"
  shows "\<exists>ss out.
           getProp current ''Statement'' = Inr (Arr ss) \<and>
           updateBucketPolicy bucket current accountIds = Inr out \<and>
           getProp out ''Statement'' =
             Inr (Arr (filter (\<lambda>s. \<not> hasManagedSid s) ss @ [updatedStatement bucket accountIds]))"
proof -
  from assms obtain fs ss where p: "current = Obj fs"
    and st: "map_of fs ''Statement'' = Some (Arr ss)"
    and out: "updateBucketPolicy bucket current accountIds =
           Inr (Obj (AList.update ''Statement''
                  (Arr (filter (\<lambda>s. \<not> hasManagedSid s) ss @ [updatedStatement bucket accountIds])) fs))"
    by (rule updateBucketPolicy_typed)
  from p st have "getProp current ''Statement'' = Inr (Arr ss)" by simp
  moreover have "getProp (Obj (AList.update ''Statement''
                  (Arr (filter (\<lambda>s. \<not> hasManagedSid s) ss @ [updatedStatement bucket accountIds])) fs)) ''Statement''
     = Inr (Arr (filter (\<lambda>s. \<not> hasManagedSid s) ss @ [updatedStatement bucket accountIds]))"
    by (simp add: update_conv')
  ultimately show ?thesis using out by simp
qed

theorem foreign_statements_preserved_witness:
  "isS3BucketPolicy examplePolicy \<and>
   getProp examplePolicy ''Statement'' =
     Inr (Arr [updatedStatement exampleBucket [''333333333333''], otherStatement,
               updatedStatement exampleBucket [], noSidStatement]) \<and>
   (\<exists>out. updateBucketPolicy exampleBucket examplePolicy exampleAccounts = Inr out \<and>
      getProp out ''Statement'' =
        Inr (Arr [otherStatement, noSidStatement, updatedStatement exampleBucket exampleAccounts]))"
proof -
  have sel: "filter (\<lambda>s. \<not> hasManagedSid s)
          [updatedStatement exampleBucket [''333333333333''], otherStatement,
           updatedStatement exampleBucket [], noSidStatement :: unit jsval]
        = [otherStatement, noSidStatement]"
    by (simp add: hasManagedSid_def updatedStatement_def otherStatement_def noSidStatement_def
        POLICY_SID_def)
  have st: "getProp examplePolicy ''Statement'' =
     Inr (Arr [updatedStatement exampleBucket [''333333333333''], otherStatement,
               updatedStatement exampleBucket [], noSidStatement])"
    by (simp add: examplePolicy_def)
  from foreign_statements_preserved [OF examplePolicy_typed, of exampleBucket exampleAccounts]
  show ?thesis using st sel examplePolicy_typed by auto
qed

lemma filter_managed_after_merge:
  "hasManagedSid m \<Longrightarrow> filter hasManagedSid (filter (\<lambda>s. \<not> hasManagedSid s) ss @ [m]) = [m]"
  by (induction ss) simp_all

lemma filter_foreign_after_merge:
  "hasManagedSid m \<Longrightarrow>
   filter (\<lambda>s. \<not> hasManagedSid s) (filter (\<lambda>s. \<not> hasManagedSid s) ss @ [m]) =
   filter (\<lambda>s. \<not> hasManagedSid s) ss"
  by (induction ss) simp_all

lemma getProp_update_same:
  "getProp (Obj (AList.update k v fs)) k = Inr v"
  by (simp add: update_conv')

text \<open>
  C2: whatever the number of statements with the managed Sid in the input document,
  the result of the merge has exactly one.
\<close>

theorem single_managed_statement:
  assumes "isS3BucketPolicy current"
  shows "\<exists>out ss.
           updateBucketPolicy bucket current accountIds = Inr out \<and>
           getProp out ''Statement'' = Inr (Arr ss) \<and>
           length (filter hasManagedSid ss) = 1"
proof -
  from assms obtain fs ss where
    out: "updateBucketPolicy bucket current accountIds =
           Inr (Obj (AList.update ''Statement''
                  (Arr (filter (\<lambda>s. \<not> hasManagedSid s) ss @ [updatedStatement bucket accountIds])) fs))"
    by (rule updateBucketPolicy_typed)
  have "length (filter hasManagedSid
          (filter (\<lambda>s. \<not> hasManagedSid s) ss @ [updatedStatement bucket accountIds])) = 1"
    by (simp add: filter_managed_after_merge updatedStatement_managed)
  with out show ?thesis using getProp_update_same by blast
qed

theorem single_managed_statement_witness:
  "isS3BucketPolicy examplePolicy \<and>
   (\<exists>ss. getProp examplePolicy ''Statement'' = Inr (Arr ss) \<and> length (filter hasManagedSid ss) = 2) \<and>
   (\<exists>out ss. updateBucketPolicy exampleBucket examplePolicy exampleAccounts = Inr out \<and>
      getProp out ''Statement'' = Inr (Arr ss) \<and> length (filter hasManagedSid ss) = 1)"
proof -
  have "getProp examplePolicy ''Statement'' =
     Inr (Arr [updatedStatement exampleBucket [''333333333333''], otherStatement,
               updatedStatement exampleBucket [], noSidStatement])"
    by (simp add: examplePolicy_def)
  moreover have "length (filter hasManagedSid
          [updatedStatement exampleBucket [''333333333333''], otherStatement,
           updatedStatement exampleBucket [], noSidStatement :: unit jsval]) = 2"
    by (simp add: hasManagedSid_def updatedStatement_def otherStatement_def noSidStatement_def
        POLICY_SID_def)
  ultimately show ?thesis
    using single_managed_statement [OF examplePolicy_typed, of exampleBucket exampleAccounts]
      examplePolicy_typed by blast
qed

lemma accountOfPrincipal_template:
  "accountOfPrincipal (Str (''arn:aws:iam::'' @ accountId @ '':root'')) = Some accountId"
  by (simp add: accountOfPrincipal_def)

text \<open>
  C3: the managed statement has the managed Sid, effect \<open>Allow\<close>, the single resource
  pattern of the bucket, the eight read actions, and as \<open>Principal.AWS\<close> the account
  ids mapped through the ARN template, which decode back to the account ids given;
  with no account id the list is empty and the statement is still built; and it is the
  last statement of the merged document.
\<close>

theorem managed_statement_built:
  "getProp (updatedStatement b a :: 'n jsval) ''Sid'' = Inr (Str ''DeploymentAccess'') \<and>
   getProp (updatedStatement b a :: 'n jsval) ''Effect'' = Inr (Str ''Allow'') \<and>
   getProp (updatedStatement b a :: 'n jsval) ''Resource'' = Inr (Str (''arn:aws:s3:::'' @ b @ ''/*'')) \<and>
   getProp (updatedStatement b a :: 'n jsval) ''Action'' =
     Inr (Arr [Str ''s3:GetObject'', Str ''s3:GetObjectTagging'', Str ''s3:GetObjectAttributes'',
               Str ''s3:GetObjectVersion'', Str ''s3:GetObjectVersionTagging'',
               Str ''s3:GetObjectVersionAttributes'', Str ''s3:GetObjectVersionAcl'',
               Str ''s3:GetObjectAcl'']) \<and>
   (\<exists>principals.
      getProp (updatedStatement b a :: 'n jsval) ''Principal'' = Inr (Obj [(''AWS'', Arr principals)]) \<and>
      principals = map (\<lambda>accountId. Str (''arn:aws:iam::'' @ accountId @ '':root'')) a \<and>
      map accountOfPrincipal principals = map Some a) \<and>
   getProp (updatedStatement b [] :: 'n jsval) ''Principal'' = Inr (Obj [(''AWS'', Arr [])]) \<and>
   (isS3BucketPolicy (p :: 'n jsval) \<longrightarrow>
      (\<exists>out ss. updateBucketPolicy b p a = Inr out \<and>
         getProp out ''Statement'' = Inr (Arr (ss @ [updatedStatement b a]))))"
proof -
  have "map accountOfPrincipal
          (map (\<lambda>accountId. Str (''arn:aws:iam::'' @ accountId @ '':root'') :: 'n jsval) a) = map Some a"
    by (induction a) (simp_all add: accountOfPrincipal_template del: append.simps)
  moreover have "\<exists>out ss. updateBucketPolicy b p a = Inr out \<and>
         getProp out ''Statement'' = Inr (Arr (ss @ [updatedStatement b a]))"
    if "isS3BucketPolicy p"
  proof -
    from that obtain fs ss where
      "updateBucketPolicy b p a =
           Inr (Obj (AList.update ''Statement''
                  (Arr (filter (\<lambda>s. \<not> hasManagedSid s) ss @ [updatedStatement b a])) fs))"
      by (rule updateBucketPolicy_typed)
    then show ?thesis using getProp_update_same by blast
  qed
  ultimately show ?thesis
    by (simp add: updatedStatement_def POLICY_SID_def)
qed

theorem managed_statement_built_witness:
  "isS3BucketPolicy examplePolicy \<and>
   (\<exists>out ss. updateBucketPolicy exampleBucket examplePolicy exampleAccounts = Inr out \<and>
         getProp out ''Statement'' = Inr (Arr (ss @ [updatedStatement exampleBucket exampleAccounts]))) \<and>
   getProp (updatedStatement exampleBucket exampleAccounts :: unit jsval) ''Principal'' =
     Inr (Obj [(''AWS'', Arr [Str ''arn:aws:iam::111111111111:root'',
                              Str ''arn:aws:iam::222222222222:root''])]) \<and>
   getProp (updatedStatement exampleBucket exampleAccounts :: unit jsval) ''Resource'' =
     Inr (Str ''arn:aws:s3:::some-prefix-lambdabundles-eu-west-2/*'')"
  using managed_statement_built [of exampleBucket exampleAccounts examplePolicy] examplePolicy_typed
  by (simp add: exampleAccounts_def exampleBucket_def)

text \<open>
  C4: merging the result of a merge again, with the same bucket and account ids, returns
  that result.
\<close>

theorem merge_idempotent:
  assumes "isS3BucketPolicy p"
  shows "\<exists>q. updateBucketPolicy b p a = Inr q \<and> updateBucketPolicy b q a = Inr q"
proof -
  let ?F = "filter (\<lambda>s. \<not> hasManagedSid s)"
  from assms obtain fs ss where
    typed: "list_all isS3BucketPolicyStatement ss" and
    out: "updateBucketPolicy b p a =
           Inr (Obj (AList.update ''Statement'' (Arr (?F ss @ [updatedStatement b a])) fs))"
    by (rule updateBucketPolicy_typed)
  let ?q = "AList.update ''Statement'' (Arr (?F ss @ [updatedStatement b a])) fs"
  have 1: "map_of ?q ''Statement'' = Some (Arr (?F ss @ [updatedStatement b a]))"
    by (simp add: update_conv')
  have 2: "list_all isS3BucketPolicyStatement (?F ss @ [updatedStatement b a])"
    using typed by (simp add: list_all_iff updatedStatement_typed)
  have "updateBucketPolicy b (Obj ?q) a =
          Inr (Obj (AList.update ''Statement''
                 (Arr (?F (?F ss @ [updatedStatement b a]) @ [updatedStatement b a])) ?q))"
    using 1 2 by (rule updateBucketPolicy_Obj)
  also have "?F (?F ss @ [updatedStatement b a]) = ?F ss"
    by (rule filter_foreign_after_merge) (rule updatedStatement_managed)
  also have "AList.update ''Statement'' (Arr (?F ss @ [updatedStatement b a])) ?q = ?q"
    by (rule update_last)
  finally show ?thesis using out by simp
qed

theorem merge_idempotent_witness:
  "isS3BucketPolicy examplePolicy \<and>
   (\<exists>q. updateBucketPolicy exampleBucket examplePolicy exampleAccounts = Inr q \<and>
        updateBucketPolicy exampleBucket q exampleAccounts = Inr q \<and>
        q \<noteq> examplePolicy)"
proof -
  from merge_idempotent [OF examplePolicy_typed, of exampleBucket exampleAccounts]
  obtain q where q: "updateBucketPolicy exampleBucket examplePolicy exampleAccounts = Inr q"
    "updateBucketPolicy exampleBucket q exampleAccounts = Inr q" by blast
  have "updateBucketPolicy exampleBucket examplePolicy exampleAccounts \<noteq> Inr examplePolicy"
    by (simp add: updateBucketPolicy_def examplePolicy_def sidDiffers_def updatedStatement_def
        otherStatement_def noSidStatement_def POLICY_SID_def)
  with q examplePolicy_typed show ?thesis by auto
qed

lemma update_nth_other:
  "i < length fs \<Longrightarrow> fst (fs ! i) \<noteq> k \<Longrightarrow> AList.update k v fs ! i = fs ! i"
proof (induction fs arbitrary: i)
  case Nil
  then show ?case by simp
next
  case (Cons f fs)
  then show ?case by (cases i) auto
qed

lemma update_keys_present:
  "map_of fs k = Some w \<Longrightarrow> map fst (AList.update k v fs) = map fst fs"
  by (simp add: update_keys map_of_eq_None_iff [symmetric] del: map_of_eq_None_iff)

text \<open>
  C5: the result of the merge has the keys of the input document in the same order, and
  every property other than \<open>Statement\<close> has the value it had.
\<close>

theorem other_fields_copied:
  assumes "isS3BucketPolicy current"
  shows "\<exists>fs gs.
           current = Obj fs \<and>
           updateBucketPolicy bucket current accountIds = Inr (Obj gs) \<and>
           map fst gs = map fst fs \<and>
           (\<forall>i < length fs. fst (fs ! i) \<noteq> ''Statement'' \<longrightarrow> gs ! i = fs ! i) \<and>
           (\<forall>k. k \<noteq> ''Statement'' \<longrightarrow> getProp (Obj gs) k = getProp current k)"
proof -
  from assms obtain fs ss where p: "current = Obj fs"
    and st: "map_of fs ''Statement'' = Some (Arr ss)"
    and out: "updateBucketPolicy bucket current accountIds =
           Inr (Obj (AList.update ''Statement''
                  (Arr (filter (\<lambda>s. \<not> hasManagedSid s) ss @ [updatedStatement bucket accountIds])) fs))"
    by (rule updateBucketPolicy_typed)
  let ?gs = "AList.update ''Statement''
                  (Arr (filter (\<lambda>s. \<not> hasManagedSid s) ss @ [updatedStatement bucket accountIds])) fs"
  have "map fst ?gs = map fst fs" using st by (rule update_keys_present)
  moreover have "\<forall>i < length fs. fst (fs ! i) \<noteq> ''Statement'' \<longrightarrow> ?gs ! i = fs ! i"
    by (simp add: update_nth_other)
  moreover have "\<forall>k. k \<noteq> ''Statement'' \<longrightarrow> getProp (Obj ?gs) k = getProp current k"
    using p by (simp add: update_conv')
  ultimately show ?thesis using p out by blast
qed

theorem other_fields_copied_witness:
  "isS3BucketPolicy examplePolicy \<and>
   (\<exists>out. updateBucketPolicy exampleBucket examplePolicy exampleAccounts = Inr out \<and>
      getProp out ''Version'' = Inr (Str ''2012-10-17'') \<and>
      getProp out ''Id'' = Inr (Str ''BundlePolicy'') \<and>
      getProp out ''Comment'' = Inr (Num ()) \<and>
      map fst (ownProperties out) = [''Version'', ''Id'', ''Statement'', ''Comment''])"
proof -
  from other_fields_copied [OF examplePolicy_typed, of exampleBucket exampleAccounts]
  obtain fs gs where fs: "examplePolicy = Obj fs"
    and out: "updateBucketPolicy exampleBucket examplePolicy exampleAccounts = Inr (Obj gs)"
    and keys: "map fst gs = map fst fs"
    and same: "\<forall>k. k \<noteq> ''Statement'' \<longrightarrow> getProp (Obj gs) k = getProp examplePolicy k"
    by blast
  from same have "getProp (Obj gs) ''Version'' = getProp examplePolicy ''Version''"
    "getProp (Obj gs) ''Id'' = getProp examplePolicy ''Id''"
    "getProp (Obj gs) ''Comment'' = getProp examplePolicy ''Comment''"
    by simp_all
  moreover from fs keys have "map fst gs = [''Version'', ''Id'', ''Statement'', ''Comment'']"
    by (auto simp: examplePolicy_def)
  ultimately show ?thesis using out examplePolicy_typed
    by (simp add: examplePolicy_def)
qed

section \<open>Properties of the account ids and of the policy fetch\<close>

lemma send_trace: "trace (snd (send ev call s)) = trace s @ [ev]"
  by (simp add: send_def split: prod.splits)

lemma foldl_setAdd:
  "distinct acc \<Longrightarrow>
   distinct (foldl setAdd acc xs) \<and> set (foldl setAdd acc xs) = set acc \<union> set xs"
  by (induction xs arbitrary: acc) (auto simp: setAdd_def)

lemma newSet_distinct: "distinct (newSet xs)"
  using foldl_setAdd [of "[]" xs] by (simp add: newSet_def)

lemma newSet_set: "set (newSet xs) = set xs"
  using foldl_setAdd [of "[]" xs] by (simp add: newSet_def)

lemma getAccountIds_fst:
  "fst (getAccountIdsFromDynamoDB sv s) =
     (case fst (scan sv DYNAMODB_TABLE_NAME (world s)) of
        Inl e \<Rightarrow> Inl e
      | Inr Items \<Rightarrow>
          Inr (newSet (concat (map (\<lambda>item. map Account.ID (Accounts item))
                 (case Items of None \<Rightarrow> [] | Some items \<Rightarrow> items)))))"
  by (simp add: getAccountIdsFromDynamoDB_def send_def split: prod.splits sum.splits)

text \<open>
  C7: when the scan resolves, \<open>getAccountIdsFromDynamoDB\<close> returns the ids of the
  accounts of all records, every id once, and the empty list when there is no record.
\<close>

theorem account_ids_resolved:
  assumes "fst (scan sv DYNAMODB_TABLE_NAME (world s)) = Inr Items"
  shows "\<exists>accountIds.
           fst (getAccountIdsFromDynamoDB sv s) = Inr accountIds \<and>
           distinct accountIds \<and>
           set accountIds =
             (\<Union>item \<in> set (case Items of None \<Rightarrow> [] | Some items \<Rightarrow> items).
                Account.ID ` set (Accounts item)) \<and>
           ((case Items of None \<Rightarrow> [] | Some items \<Rightarrow> items) = [] \<longrightarrow> accountIds = [])"
proof -
  let ?records = "case Items of None \<Rightarrow> [] | Some items \<Rightarrow> items"
  let ?ids = "newSet (concat (map (\<lambda>item. map Account.ID (Accounts item)) ?records))"
  have "fst (getAccountIdsFromDynamoDB sv s) = Inr ?ids"
    using assms by (simp add: getAccountIds_fst)
  moreover have "distinct ?ids" by (rule newSet_distinct)
  moreover have "set ?ids = (\<Union>item \<in> set ?records. Account.ID ` set (Accounts item))"
    by (simp add: newSet_set)
  moreover have "?records = [] \<longrightarrow> ?ids = []" by (simp add: newSet_def)
  ultimately show ?thesis by blast
qed

theorem account_ids_resolved_witness:
  "fst (scan (exampleServices (Inr (Some exampleCustomers)) (Inr None)) DYNAMODB_TABLE_NAME
         (world start)) = Inr (Some exampleCustomers) \<and>
   (\<exists>accountIds.
      fst (getAccountIdsFromDynamoDB (exampleServices (Inr (Some exampleCustomers)) (Inr None)) start)
        = Inr accountIds \<and>
      distinct accountIds \<and> set accountIds = {''111111111111'', ''222222222222''} \<and>
      length accountIds = 2) \<and>
   fst (getAccountIdsFromDynamoDB (exampleServices (Inr (Some [])) (Inr None)) start) = Inr []"
proof -
  have sc: "fst (scan (exampleServices (Inr (Some exampleCustomers)) (Inr None)) DYNAMODB_TABLE_NAME
         (world start)) = Inr (Some exampleCustomers)"
    by (simp add: exampleServices_def)
  have sc0: "fst (scan (exampleServices (Inr (Some [])) (Inr None)) DYNAMODB_TABLE_NAME
         (world start)) = Inr (Some [])"
    by (simp add: exampleServices_def)
  from account_ids_resolved [OF sc] obtain accountIds where
    r: "fst (getAccountIdsFromDynamoDB (exampleServices (Inr (Some exampleCustomers)) (Inr None)) start)
        = Inr accountIds"
    and d: "distinct accountIds"
    and s: "set accountIds = (\<Union>item \<in> set exampleCustomers. Account.ID ` set (Accounts item))"
    by auto
  have "(\<Union>item \<in> set exampleCustomers. Account.ID ` set (Accounts item))
          = {''111111111111'', ''222222222222''}"
    by (auto simp: exampleCustomers_def exampleAccount_def)
  with s have s': "set accountIds = {''111111111111'', ''222222222222''}" by simp
  with d have "length accountIds = 2"
    using distinct_card [of accountIds] by simp
  moreover from account_ids_resolved [OF sc0]
  have "fst (getAccountIdsFromDynamoDB (exampleServices (Inr (Some [])) (Inr None)) start) = Inr []"
    by auto
  ultimately show ?thesis using sc r d s' by blast
qed

lemma getCurrentBucketPolicy_fst:
  "fst (getCurrentBucketPolicy sv client bucket s) =
     (case fst (getBucketPolicy sv client bucket (world s)) of
        Inl e \<Rightarrow>
          if isNoSuchBucketPolicy e
          then Inr (Obj [(''Statement'', Arr []), (''Version'', Str ''2012-10-17'')])
          else Inl e
      | Inr Policy \<Rightarrow>
          (case JSON_parse sv (policyOrEmpty Policy) of
             None \<Rightarrow> Inl SyntaxError
           | Some currentPolicy \<Rightarrow> Inr currentPolicy))"
  by (simp add: getCurrentBucketPolicy_def send_def split: prod.splits sum.splits option.splits)

text \<open>
  C10: when the get-policy call resolves and the body parses to an object whose
  \<open>Statement\<close> is missing or is no array, \<open>getCurrentBucketPolicy\<close> returns that
  object and \<open>updateBucketPolicy\<close> throws a \<open>TypeError\<close> on it; an absent and an
  empty \<open>Policy\<close> string are both parsed as \<open>{}\<close>.
\<close>

theorem statement_missing_throws:
  assumes "fst (getBucketPolicy sv client bucket (world s)) = Inr Policy"
    and "JSON_parse sv (policyOrEmpty Policy) = Some (Obj fs)"
    and "\<not> (\<exists>ss. map_of fs ''Statement'' = Some (Arr ss))"
  shows "fst (getCurrentBucketPolicy sv client bucket s) = Inr (Obj fs) \<and>
         updateBucketPolicy bucket (Obj fs) accountIds = Inl TypeError \<and>
         (Policy = None \<or> Policy = Some [] \<longrightarrow> policyOrEmpty Policy = ''{}'')"
proof -
  have "fst (getCurrentBucketPolicy sv client bucket s) = Inr (Obj fs)"
    using assms(1,2) by (simp add: getCurrentBucketPolicy_fst)
  moreover have "updateBucketPolicy bucket (Obj fs) accountIds = Inl TypeError"
  proof (cases "map_of fs ''Statement''")
    case None
    then show ?thesis by (simp add: updateBucketPolicy_def)
  next
    case (Some v)
    with assms(3) show ?thesis by (cases v) (simp_all add: updateBucketPolicy_def)
  qed
  moreover have "Policy = None \<or> Policy = Some [] \<longrightarrow> policyOrEmpty Policy = ''{}''"
    by (auto simp: policyOrEmpty_def)
  ultimately show ?thesis by blast
qed

theorem statement_missing_throws_witness:
  "fst (getBucketPolicy (exampleServices (Inr None) (Inr None)) ''-eu-west-2'' exampleBucket
          (world start)) = Inr None \<and>
   JSON_parse (exampleServices (Inr None) (Inr None)) (policyOrEmpty None) = Some (Obj []) \<and>
   fst (getCurrentBucketPolicy (exampleServices (Inr None) (Inr None)) ''-eu-west-2''
          exampleBucket start) = Inr (Obj []) \<and>
   updateBucketPolicy exampleBucket (Obj [] :: unit jsval) exampleAccounts = Inl TypeError"
proof -
  have g: "fst (getBucketPolicy (exampleServices (Inr None) (Inr None)) ''-eu-west-2'' exampleBucket
          (world start)) = Inr None"
    by (simp add: exampleServices_def)
  have p: "JSON_parse (exampleServices (Inr None) (Inr None)) (policyOrEmpty None) = Some (Obj [])"
    by (simp add: exampleServices_def policyOrEmpty_def)
  have n: "\<not> (\<exists>ss. map_of ([] :: (string \<times> unit jsval) list) ''Statement'' = Some (Arr ss))"
    by simp
  from statement_missing_throws [OF g p n, where accountIds = exampleAccounts] g p
  show ?thesis by simp
qed

section \<open>Properties of the driver\<close>

lemma getAccountIds_trace:
  "trace (snd (getAccountIdsFromDynamoDB sv s)) = trace s @ [ScanCommand DYNAMODB_TABLE_NAME]"
  by (simp add: getAccountIdsFromDynamoDB_def send_def split: prod.splits sum.splits)

lemma getAccountIds_world:
  "world (snd (getAccountIdsFromDynamoDB sv s)) = snd (scan sv DYNAMODB_TABLE_NAME (world s))"
  by (simp add: getAccountIdsFromDynamoDB_def send_def split: prod.splits sum.splits)

lemma listLambdaBundleBuckets_trace:
  "trace (snd (listLambdaBundleBuckets sv s)) = trace s @ [ListBucketsCommand]"
  by (simp add: listLambdaBundleBuckets_def send_def split: prod.splits sum.splits)

lemma getCurrentBucketPolicy_trace:
  "trace (snd (getCurrentBucketPolicy sv client bucket s)) =
     trace s @ [GetBucketPolicyCommand client bucket]"
  by (simp add: getCurrentBucketPolicy_def send_def split: prod.splits sum.splits option.splits)

lemma forBuckets_trace:
  "\<exists>evs. trace (snd (forBuckets sv accountIds buckets s)) = trace s @ evs \<and>
         list_all (\<lambda>ev. \<not> isScan ev) evs"
proof (induction buckets arbitrary: s)
  case Nil
  then show ?case by simp
next
  case (Cons bucket rest)
  let ?client = "slice 25 bucket"
  let ?got = "getCurrentBucketPolicy sv ?client bucket s"
  have got: "trace (snd ?got) = trace s @ [GetBucketPolicyCommand ?client bucket]"
    by (rule getCurrentBucketPolicy_trace)
  show ?case
  proof (cases "fst ?got")
    case (Inl e)
    then show ?thesis using got by (simp add: case_prod_beta Let_def)
  next
    case (Inr currentPolicy)
    show ?thesis
    proof (cases "updateBucketPolicy bucket currentPolicy accountIds")
      case (Inl e)
      then show ?thesis using got Inr by (simp add: case_prod_beta Let_def)
    next
      case updated: (Inr updatedPolicy)
      let ?policy = "JSON_stringify sv updatedPolicy"
      let ?put = "send (PutBucketPolicyCommand ?client bucket ?policy)
                    (putBucketPolicy sv ?client bucket ?policy) (snd ?got)"
      have put: "trace (snd ?put) =
                   trace s @ [GetBucketPolicyCommand ?client bucket,
                              PutBucketPolicyCommand ?client bucket ?policy]"
        using got by (simp add: send_trace)
      show ?thesis
      proof (cases "fst ?put")
        case (Inl e)
        then show ?thesis using put Inr updated by (simp add: case_prod_beta Let_def)
      next
        case ok: (Inr u)
        from Cons.IH [of "snd ?put"] obtain evs where
          "trace (snd (forBuckets sv accountIds rest (snd ?put))) = trace (snd ?put) @ evs"
          "list_all (\<lambda>ev. \<not> isScan ev) evs" by blast
        then show ?thesis using put Inr updated ok by (simp add: case_prod_beta Let_def)
      qed
    qed
  qed
qed

lemma handlerBody_trace:
  "\<exists>evs. trace (snd (handlerBody sv s)) = trace s @ ScanCommand DYNAMODB_TABLE_NAME # evs \<and>
         list_all (\<lambda>ev. \<not> isScan ev) evs"
proof -
  let ?a = "getAccountIdsFromDynamoDB sv s"
  note a = getAccountIds_trace [of sv s]
  show ?thesis
  proof (cases "fst ?a")
    case (Inl e)
    then show ?thesis using a by (simp add: handlerBody_def case_prod_beta)
  next
    case ids: (Inr accountIds)
    let ?l = "listLambdaBundleBuckets sv (snd ?a)"
    have l: "trace (snd ?l) = trace s @ [ScanCommand DYNAMODB_TABLE_NAME, ListBucketsCommand]"
      using a by (simp add: listLambdaBundleBuckets_trace)
    show ?thesis
    proof (cases "fst ?l")
      case (Inl e)
      then show ?thesis using l ids by (simp add: handlerBody_def case_prod_beta)
    next
      case bs: (Inr buckets)
      from forBuckets_trace [of sv accountIds buckets "snd ?l"] obtain evs where
        evs: "trace (snd (forBuckets sv accountIds buckets (snd ?l))) = trace (snd ?l) @ evs"
        "list_all (\<lambda>ev. \<not> isScan ev) evs" by blast
      show ?thesis
      proof (cases "fst (forBuckets sv accountIds buckets (snd ?l))")
        case (Inl e)
        then show ?thesis using l ids bs evs by (simp add: handlerBody_def case_prod_beta)
      next
        case (Inr u)
        then show ?thesis using l ids bs evs
          by (simp add: handlerBody_def case_prod_beta console_def)
      qed
    qed
  qed
qed

lemma handlerBody_registry_failure:
  assumes "fst (scan sv DYNAMODB_TABLE_NAME (world s)) = Inl e"
  shows "fst (handlerBody sv s) = Inl e"
    and "trace (snd (handlerBody sv s)) = trace s @ [ScanCommand DYNAMODB_TABLE_NAME]"
    and "world (snd (handlerBody sv s)) = snd (scan sv DYNAMODB_TABLE_NAME (world s))"
proof -
  have "fst (getAccountIdsFromDynamoDB sv s) = Inl e"
    using assms by (simp add: getAccountIds_fst)
  then have "handlerBody sv s = (Inl e, snd (getAccountIdsFromDynamoDB sv s))"
    by (simp add: handlerBody_def case_prod_beta)
  then show "fst (handlerBody sv s) = Inl e"
    and "trace (snd (handlerBody sv s)) = trace s @ [ScanCommand DYNAMODB_TABLE_NAME]"
    and "world (snd (handlerBody sv s)) = snd (scan sv DYNAMODB_TABLE_NAME (world s))"
    by (simp_all add: getAccountIds_trace getAccountIds_world)
qed

lemma handler_unfold:
  "handler sv s =
     (case fst (handlerBody sv s) of
        Inl error \<Rightarrow> (Inl error, console (ConsoleError error) (snd (handlerBody sv s)))
      | Inr u \<Rightarrow> (Inr (), snd (handlerBody sv s)))"
  by (simp add: handler_def case_prod_beta)

text \<open>
  C9: the first call of every run of \<open>handler\<close> is the scan of the registry and no
  later call is a scan; when the scan rejects, the run throws the same error, its only
  other action is to log it, no policy is written and the world is as the scan left it.
\<close>

theorem accounts_resolved_once_and_first:
  "\<exists>rest.
     trace (snd (handler sv s)) = trace s @ ScanCommand DYNAMODB_TABLE_NAME # rest \<and>
     list_all (\<lambda>ev. \<not> isScan ev) rest \<and>
     (\<forall>e. fst (scan sv DYNAMODB_TABLE_NAME (world s)) = Inl e \<longrightarrow>
        fst (handler sv s) = Inl e \<and>
        rest = [ConsoleError e] \<and>
        list_all (\<lambda>ev. \<not> isPut ev) rest \<and>
        world (snd (handler sv s)) = snd (scan sv DYNAMODB_TABLE_NAME (world s)))"
proof (cases "fst (scan sv DYNAMODB_TABLE_NAME (world s))")
  case (Inl e)
  note f = handlerBody_registry_failure [OF Inl]
  have "trace (snd (handler sv s)) = trace s @ ScanCommand DYNAMODB_TABLE_NAME # [ConsoleError e]"
    and "fst (handler sv s) = Inl e"
    and "world (snd (handler sv s)) = snd (scan sv DYNAMODB_TABLE_NAME (world s))"
    using f by (simp_all add: handler_unfold console_def)
  then show ?thesis using Inl by simp
next
  case (Inr Items)
  from handlerBody_trace [of sv s] obtain evs where
    evs: "trace (snd (handlerBody sv s)) = trace s @ ScanCommand DYNAMODB_TABLE_NAME # evs"
    "list_all (\<lambda>ev. \<not> isScan ev) evs" by blast
  show ?thesis
  proof (cases "fst (handlerBody sv s)")
    case (Inl error)
    then have "trace (snd (handler sv s)) =
                 trace s @ ScanCommand DYNAMODB_TABLE_NAME # (evs @ [ConsoleError error])"
      using evs by (simp add: handler_unfold console_def)
    moreover have "list_all (\<lambda>ev. \<not> isScan ev) (evs @ [ConsoleError error])"
      using evs by simp
    ultimately show ?thesis using Inr by auto
  next
    case ok: (Inr u)
    then have "trace (snd (handler sv s)) = trace s @ ScanCommand DYNAMODB_TABLE_NAME # evs"
      using evs by (simp add: handler_unfold)
    then show ?thesis using evs Inr by auto
  qed
qed

lemma example_run_failed_registry:
  "fst (scan (exampleServices (Inl accessDenied) (Inl noSuchBucketPolicy)) DYNAMODB_TABLE_NAME
          (world start)) = Inl accessDenied"
  by (simp add: exampleServices_def)

theorem accounts_resolved_once_and_first_witness:
  "fst (scan (exampleServices (Inl accessDenied) (Inl noSuchBucketPolicy)) DYNAMODB_TABLE_NAME
          (world start)) = Inl accessDenied \<and>
   fst (handler (exampleServices (Inl accessDenied) (Inl noSuchBucketPolicy)) start) = Inl accessDenied \<and>
   trace (snd (handler (exampleServices (Inl accessDenied) (Inl noSuchBucketPolicy)) start)) =
     [ScanCommand DYNAMODB_TABLE_NAME, ConsoleError accessDenied] \<and>
   world (snd (handler (exampleServices (Inl accessDenied) (Inl noSuchBucketPolicy)) start)) = []"
proof -
  from accounts_resolved_once_and_first
    [of "exampleServices (Inl accessDenied) (Inl noSuchBucketPolicy)" start]
  obtain rest where
    t: "trace (snd (handler (exampleServices (Inl accessDenied) (Inl noSuchBucketPolicy)) start)) =
          trace start @ ScanCommand DYNAMODB_TABLE_NAME # rest"
    and f: "\<forall>e. fst (scan (exampleServices (Inl accessDenied) (Inl noSuchBucketPolicy))
                    DYNAMODB_TABLE_NAME (world start)) = Inl e \<longrightarrow>
        fst (handler (exampleServices (Inl accessDenied) (Inl noSuchBucketPolicy)) start) = Inl e \<and>
        rest = [ConsoleError e] \<and>
        list_all (\<lambda>ev. \<not> isPut ev) rest \<and>
        world (snd (handler (exampleServices (Inl accessDenied) (Inl noSuchBucketPolicy)) start)) =
          snd (scan (exampleServices (Inl accessDenied) (Inl noSuchBucketPolicy))
                 DYNAMODB_TABLE_NAME (world start))"
    by blast
  from f example_run_failed_registry have
    r: "fst (handler (exampleServices (Inl accessDenied) (Inl noSuchBucketPolicy)) start) = Inl accessDenied"
    and rest: "rest = [ConsoleError accessDenied]"
    and w: "world (snd (handler (exampleServices (Inl accessDenied) (Inl noSuchBucketPolicy)) start)) =
          snd (scan (exampleServices (Inl accessDenied) (Inl noSuchBucketPolicy))
                 DYNAMODB_TABLE_NAME (world start))"
    by blast+
  have "snd (scan (exampleServices (Inl accessDenied) (Inl noSuchBucketPolicy))
                 DYNAMODB_TABLE_NAME (world start)) = []"
    by (simp add: exampleServices_def start_def)
  with w have "world (snd (handler (exampleServices (Inl accessDenied) (Inl noSuchBucketPolicy)) start)) = []"
    by simp
  moreover from t rest have
    "trace (snd (handler (exampleServices (Inl accessDenied) (Inl noSuchBucketPolicy)) start)) =
     [ScanCommand DYNAMODB_TABLE_NAME, ConsoleError accessDenied]"
    by (simp add: start_def)
  ultimately show ?thesis using r example_run_failed_registry by (intro conjI)
qed

text \<open>
  C6: the bucket names that pass the filter start with a prefix of 26 characters, and
  the region is the name without its first 25 characters: for the bucket of the
  specification the regional client is built for \<open>-eu-west-2\<close>.
\<close>

theorem region_keeps_separator:
  "startsWith ''some-prefix-lambdabundles-eu-west-2'' ''some-prefix-lambdabundles-'' \<and>
   length ''some-prefix-lambdabundles-'' = 26 \<and>
   slice 25 ''some-prefix-lambdabundles-eu-west-2'' = ''-eu-west-2'' \<and>
   (\<forall>region. slice 25 (''some-prefix-lambdabundles-'' @ region) = CHR ''-'' # region) \<and>
   trace (snd (handler (exampleServices (Inr (Some exampleCustomers)) (Inl noSuchBucketPolicy)) start)) =
     [ScanCommand ''table-name'',
      ListBucketsCommand,
      GetBucketPolicyCommand ''-eu-west-2'' ''some-prefix-lambdabundles-eu-west-2'',
      PutBucketPolicyCommand ''-eu-west-2'' ''some-prefix-lambdabundles-eu-west-2'' ''<policy>'',
      ConsoleLog ''S3 bucket policy updated successfully!'']"
  by (simp add: startsWith_def slice_def handler_def handlerBody_def getAccountIdsFromDynamoDB_def
      listLambdaBundleBuckets_def getCurrentBucketPolicy_def updateBucketPolicy_def send_def
      console_def exampleServices_def start_def noSuchBucketPolicy_def DYNAMODB_TABLE_NAME_def
      Let_def sidDiffers_def)

section \<open>The missing policy and the failed fetch\<close>










end
